theory Spec2Isabelle
  imports Main
begin

section \<open>WireGo: configuration, construction, run and shutdown\<close>

text \<open>
  A shallow embedding of package \<open>wirego\<close> (\<open>options.go\<close>, \<open>health.go\<close>, \<open>app.go\<close>).
  Values of library types whose inside the package never inspects (interceptors, gateway
  mux options, loggers) are opaque handles. Go's \<open>int\<close> and \<open>time.Duration\<close> are
  modelled by \<open>int\<close>: the package only stores and compares them.
\<close>

subsection \<open>options.go\<close>

datatype UnaryServerInterceptor = UnaryInterceptorHandle nat
datatype StreamServerInterceptor = StreamInterceptorHandle nat
datatype ServeMuxOption = ServeMuxOptionHandle nat

text \<open>\<open>DefaultJSONLogger\<close> is the \<open>slog\<close> JSON logger on standard output at level Info.\<close>

datatype Logger = DefaultJSONLogger | LoggerHandle nat

text \<open>
  \<open>'h\<close> is the type of an \<open>http.Handler\<close>; a middleware is a function
  \<open>func(http.Handler) http.Handler\<close>.
\<close>

record 'h Options =
  grpcPort :: int
  httpPort :: int
  enableReflection :: bool
  shutdownTimeout :: int
  unaryInterceptors :: "UnaryServerInterceptor list"
  streamInterceptors :: "StreamServerInterceptor list"
  muxOptions :: "ServeMuxOption list"
  httpMiddleware :: "('h \<Rightarrow> 'h) list"
  logger :: Logger

text \<open>
  \<open>type Option func(*Options)\<close>. The fields of \<open>Options\<close> are unexported, so the
  option values a caller can build are the closures returned by the nine \<open>With...\<close>
  functions; each constructor stands for one such closure with its captured argument,
  and \<open>applyOption\<close> is the closure's body.
\<close>

datatype 'h Option =
    WithGRPCPort int
  | WithHTTPPort int
  | WithReflection bool
  | WithShutdownTimeout int
  | WithUnaryInterceptors "UnaryServerInterceptor list"
  | WithStreamInterceptors "StreamServerInterceptor list"
  | WithMuxOptions "ServeMuxOption list"
  | WithHTTPMiddleware "('h \<Rightarrow> 'h) list"
  | WithLogger Logger

definition defaultOptions :: "'h Options" where
  "defaultOptions =
     \<lparr> grpcPort = 9000,
       httpPort = 0,
       enableReflection = True,
       shutdownTimeout = 1000000000 * 10,
       unaryInterceptors = [],
       streamInterceptors = [],
       muxOptions = [],
       httpMiddleware = [],
       logger = DefaultJSONLogger \<rparr>"

fun applyOption :: "'h Option \<Rightarrow> 'h Options \<Rightarrow> 'h Options" where
  "applyOption (WithGRPCPort port) o' = o'\<lparr>grpcPort := port\<rparr>"
| "applyOption (WithHTTPPort port) o' = o'\<lparr>httpPort := port\<rparr>"
| "applyOption (WithReflection enable) o' = o'\<lparr>enableReflection := enable\<rparr>"
| "applyOption (WithShutdownTimeout timeout) o' = o'\<lparr>shutdownTimeout := timeout\<rparr>"
| "applyOption (WithUnaryInterceptors interceptors) o' =
     o'\<lparr>unaryInterceptors := unaryInterceptors o' @ interceptors\<rparr>"
| "applyOption (WithStreamInterceptors interceptors) o' =
     o'\<lparr>streamInterceptors := streamInterceptors o' @ interceptors\<rparr>"
| "applyOption (WithMuxOptions opts) o' = o'\<lparr>muxOptions := muxOptions o' @ opts\<rparr>"
| "applyOption (WithHTTPMiddleware middleware) o' =
     o'\<lparr>httpMiddleware := httpMiddleware o' @ middleware\<rparr>"
| "applyOption (WithLogger l) o' = o'\<lparr>logger := l\<rparr>"

text \<open>
  The first three lines of \<open>NewApp\<close>:
  \<^verbatim>\<open>options := defaultOptions(); for _, opt := range opts { opt(options) }\<close>
\<close>

fun applyOptions :: "'h Option list \<Rightarrow> 'h Options \<Rightarrow> 'h Options" where
  "applyOptions [] o' = o'"
| "applyOptions (opt # opts) o' = applyOptions opts (applyOption opt o')"

definition buildOptions :: "'h Option list \<Rightarrow> 'h Options" where
  "buildOptions opts = applyOptions opts defaultOptions"

text \<open>
  \<open>wrapHTTPHandler\<close>: the loop \<^verbatim>\<open>for i := len(o.httpMiddleware) - 1; i >= 0; i--\<close>
  with its signed index.
\<close>

function wrapLoop :: "('h \<Rightarrow> 'h) list \<Rightarrow> int \<Rightarrow> 'h \<Rightarrow> 'h" where
  "wrapLoop mws i h = (if i \<ge> 0 then wrapLoop mws (i - 1) ((mws ! nat i) h) else h)"
  by pat_completeness auto
termination
  by (relation "measure (\<lambda>(mws, i, h). nat (i + 1))") auto

declare wrapLoop.simps [simp del]

definition wrapHTTPHandler :: "'h Options \<Rightarrow> 'h \<Rightarrow> 'h" where
  "wrapHTTPHandler o' handler =
     wrapLoop (httpMiddleware o') (int (length (httpMiddleware o')) - 1) handler"

subsection \<open>health.go\<close>

text \<open>
  The flag that the gRPC health registry keeps for the service name \<open>""\<close>, the only
  name the package sets or checks; \<open>health.NewServer()\<close> starts it as \<open>SERVING\<close>.
\<close>

datatype ServingStatus = SERVING | NOT_SERVING

text \<open>
  An \<open>error\<close> value: a message, or \<open>fmt.Errorf("prefix: %w", err)\<close> wrapping another
  error. \<open>errorString\<close> is the method \<open>Error()\<close>.
\<close>

datatype Error = ErrorString string | Wrapped string Error

fun errorString :: "Error \<Rightarrow> string" where
  "errorString (ErrorString m) = m"
| "errorString (Wrapped prefix e) = prefix @ '': '' @ errorString e"

text \<open>
  An \<open>http.ResponseWriter\<close>: the status line once written, and the body bytes. As in
  \<open>net/http\<close>, a second \<open>WriteHeader\<close> is ignored and a \<open>Write\<close> before any
  \<open>WriteHeader\<close> writes status 200 first.
\<close>

record ResponseWriter =
  wroteHeader :: "nat option"
  written :: string

definition newResponseWriter :: ResponseWriter where
  "newResponseWriter = \<lparr> wroteHeader = None, written = [] \<rparr>"

definition WriteHeader :: "nat \<Rightarrow> ResponseWriter \<Rightarrow> ResponseWriter" where
  "WriteHeader code w = (case wroteHeader w of None \<Rightarrow> w\<lparr>wroteHeader := Some code\<rparr> | Some c \<Rightarrow> w)"

definition Write :: "string \<Rightarrow> ResponseWriter \<Rightarrow> ResponseWriter" where
  "Write b w = (let w' = WriteHeader 200 w in w'\<lparr>written := written w' @ b\<rparr>)"

definition StatusOK :: nat where "StatusOK = 200"
definition StatusServiceUnavailable :: nat where "StatusServiceUnavailable = 503"

text \<open>
  \<open>HealthHandler\<close>: \<open>healthCheck.Check\<close> of the empty service name returns the flag
  (it fails only for a name that was never set, which \<open>""\<close> never is).
\<close>

definition HealthHandler :: "ServingStatus \<Rightarrow> ResponseWriter \<Rightarrow> ResponseWriter" where
  "HealthHandler healthCheck w =
     (if healthCheck \<noteq> SERVING
      then Write ''Service Unavailable'' (WriteHeader StatusServiceUnavailable w)
      else Write ''OK'' (WriteHeader StatusOK w))"

text \<open>
  A \<open>ReadinessCheck\<close> is the method \<open>Check(ctx) error\<close>: given the context it returns
  \<open>nil\<close> (\<open>None\<close>) or an error, and may act on the world \<open>'w\<close> it probes. A request is
  modelled by what the handler reads of it, its context.
\<close>

type_synonym ('x, 'w) ReadinessCheck = "'x \<Rightarrow> 'w \<Rightarrow> Error option \<times> 'w"

record 'x Request =
  Context :: 'x

fun ReadinessHandler ::
  "('x, 'w) ReadinessCheck list \<Rightarrow> ResponseWriter \<Rightarrow> 'x Request \<Rightarrow> 'w \<Rightarrow> ResponseWriter \<times> 'w" where
  "ReadinessHandler [] w r s = (Write ''Ready'' (WriteHeader StatusOK w), s)"
| "ReadinessHandler (check # checks) w r s =
     (case check (Context r) s of
        (Some err, s') \<Rightarrow> (Write (errorString err) (WriteHeader StatusServiceUnavailable w), s')
      | (None, s') \<Rightarrow> ReadinessHandler checks w r s')"

subsection \<open>app.go: construction\<close>

text \<open>
  A call returns normally (\<open>Ok\<close>), returns an error (\<open>Err\<close>) or panics (\<open>Panic\<close>).
  The only panic on the paths modelled here is the one of \<open>net/http\<close>'s
  \<open>ServeMux.Handle\<close>/\<open>HandleFunc\<close>, which panics when the pattern conflicts with one
  that is already registered.
\<close>

datatype PanicValue = PatternConflict string

datatype 'a Result = Ok 'a | Err Error | Panic PanicValue

text \<open>
  The handler values the package registers on its router: the closures returned by
  \<open>HealthHandler(healthCheck)\<close> and \<open>ReadinessHandler(checks...)\<close>, and the gateway
  multiplexer.
\<close>

datatype ('x, 'w) RouteHandler =
    HealthHandlerFunc
  | ReadinessHandlerFunc "('x, 'w) ReadinessCheck list"
  | GatewayMuxHandler

text \<open>
  An \<open>http.ServeMux\<close>: its registrations in order. Of the patterns used here
  (\<open>/healthz\<close>, \<open>/readyz\<close> and the subtree \<open>/\<close>) two conflict exactly when they are
  the same pattern.
\<close>

type_synonym ('x, 'w) ServeMux = "(string \<times> ('x, 'w) RouteHandler) list"

definition HandleFunc ::
  "string \<Rightarrow> ('x, 'w) RouteHandler \<Rightarrow> ('x, 'w) ServeMux \<Rightarrow> ('x, 'w) ServeMux Result" where
  "HandleFunc pattern handler m =
     (if pattern \<in> set (map fst m) then Panic (PatternConflict pattern)
      else Ok (m @ [(pattern, handler)]))"

definition WithHealthEndpoints ::
  "('x, 'w) ServeMux \<Rightarrow> ('x, 'w) ReadinessCheck list \<Rightarrow> ('x, 'w) ServeMux Result" where
  "WithHealthEndpoints m readinessChecks =
     (case HandleFunc ''/healthz'' HealthHandlerFunc m of
        Ok m' \<Rightarrow> HandleFunc ''/readyz'' (ReadinessHandlerFunc readinessChecks) m'
      | Err e \<Rightarrow> Err e
      | Panic p \<Rightarrow> Panic p)"

text \<open>
  The gRPC server as the package configures it: the two interceptor chains, whether the
  health service and the reflection service are registered, and whether the hosted
  service has been registered (\<open>RegisterGRPC\<close>, in \<open>Run\<close>).
\<close>

record GRPCServer =
  unaryChain :: "UnaryServerInterceptor list"
  streamChain :: "StreamServerInterceptor list"
  healthRegistered :: bool
  reflectionRegistered :: bool
  serviceRegistered :: bool

text \<open>The gateway \<open>runtime.ServeMux\<close>: its options, and whether \<open>RegisterHTTP\<close> ran on it.\<close>

record GatewayMux =
  gatewayOptions :: "ServeMuxOption list"
  gatewayRegistered :: bool

text \<open>
  The \<open>http.Server\<close>: \<open>Addr\<close> is \<open>":"\<close> followed by the port in decimal, kept here as
  the port; \<open>Handler\<close> is the wrapped router.
\<close>

record 'h HTTPServer =
  AddrPort :: int
  Handler :: 'h

text \<open>
  \<open>App\<close>. A pointer field that can be \<open>nil\<close> is an option. \<open>healthCheck\<close> holds the
  registry's flag; the route \<open>HealthHandlerFunc\<close> reads the same registry.
\<close>

record ('h, 'x, 'w) App =
  options :: "'h Options"
  grpcServer :: "GRPCServer option"
  httpServer :: "'h HTTPServer option"
  healthCheck :: ServingStatus
  mux :: "GatewayMux option"
  httpMux :: "('x, 'w) ServeMux option"

text \<open>
  \<open>NewApp\<close>. Its context argument is never used and is left out; \<open>routerHandler\<close>
  is the new router seen as an \<open>http.Handler\<close>, the value handed to
  \<open>wrapHTTPHandler\<close>.
\<close>

definition NewApp :: "'h \<Rightarrow> 'h Option list \<Rightarrow> ('h, 'x, 'w) App Result" where
  "NewApp routerHandler opts =
     (let opt = buildOptions opts in
      if grpcPort opt \<le> 0
      then Err (ErrorString ''gRPC port must be specified and be greater than 0'')
      else
        let hc = SERVING;
            gs = \<lparr> unaryChain = unaryInterceptors opt,
                   streamChain = streamInterceptors opt,
                   healthRegistered = True,
                   reflectionRegistered = enableReflection opt,
                   serviceRegistered = False \<rparr>
        in
          if httpPort opt > 0
          then
            (let gwMux = \<lparr> gatewayOptions = muxOptions opt, gatewayRegistered = False \<rparr> in
             case WithHealthEndpoints [] [] of
               Err e \<Rightarrow> Err e
             | Panic p \<Rightarrow> Panic p
             | Ok m1 \<Rightarrow>
                 (case HandleFunc ''/'' GatewayMuxHandler m1 of
                    Err e \<Rightarrow> Err e
                  | Panic p \<Rightarrow> Panic p
                  | Ok m2 \<Rightarrow>
                      Ok \<lparr> options = opt,
                           grpcServer = Some gs,
                           httpServer = Some \<lparr> AddrPort = httpPort opt,
                                               Handler = wrapHTTPHandler opt routerHandler \<rparr>,
                           healthCheck = hc,
                           mux = Some gwMux,
                           httpMux = Some m2 \<rparr>))
          else
            Ok \<lparr> options = opt,
                 grpcServer = Some gs,
                 httpServer = None,
                 healthCheck = hc,
                 mux = None,
                 httpMux = None \<rparr>)"

subsection \<open>app.go: run\<close>

text \<open>
  The hosted service, by the interfaces it satisfies. \<open>RegisterGRPC\<close> is always there.
  \<open>readinessProvider\<close> is \<open>None\<close> when the type assertion to \<open>ReadinessProvider\<close>
  fails, else the list \<open>ReadinessChecks()\<close> returns; \<open>httpProvider\<close> is \<open>None\<close> when
  the assertion to \<open>HTTPProvider\<close> fails, else what \<open>RegisterHTTP\<close> returns
  (\<open>None\<close> for \<open>nil\<close>).
\<close>

record ('x, 'w) Service =
  readinessProvider :: "('x, 'w) ReadinessCheck list option"
  httpProvider :: "Error option option"

text \<open>The functions handed to the error group's \<open>Go\<close>.\<close>

datatype Task = GRPCServeTask | HTTPServeTask | ShutdownWatcherTask

text \<open>
  The calls the package makes on its collaborators, in program order: on the health
  registry, the hosted service, the error group, the router, the two servers and the
  logger. \<open>GoGracefulStop\<close> is the goroutine in \<open>Shutdown\<close> that calls
  \<open>GracefulStop\<close>; \<open>HTTPShutdownReturn\<close> is the return of \<open>httpServer.Shutdown\<close>.
\<close>

datatype ('x, 'w) Call =
    SetServingStatus ServingStatus
  | RegisterGRPC
  | Go Task
  | MuxHandleFunc string "('x, 'w) RouteHandler"
  | RegisterHTTP
  | HTTPShutdownCall
  | HTTPShutdownReturn "Error option"
  | GoGracefulStop
  | Stop
  | LogInfo string
  | LogError string

text \<open>
  The state \<open>Run\<close> acts on: the application, the tasks launched on the error group, and
  the calls made so far.
\<close>

record ('h, 'x, 'w) RunState =
  app :: "('h, 'x, 'w) App"
  launched :: "Task list"
  trace :: "('x, 'w) Call list"

text \<open>
  How the synchronous part of \<open>Run\<close> ends: it reaches \<open>g.Wait()\<close> and blocks there
  until the launched tasks return, or it returns an error before, or it panics.
\<close>

datatype Outcome = WaitsOnGroup | Returns Error | Panics PanicValue

definition goTask :: "Task \<Rightarrow> ('h, 'x, 'w) RunState \<Rightarrow> ('h, 'x, 'w) RunState" where
  "goTask t s = s\<lparr>launched := launched s @ [t], trace := trace s @ [Go t]\<rparr>"

definition startGRPCServer :: "('h, 'x, 'w) RunState \<Rightarrow> ('h, 'x, 'w) RunState" where
  "startGRPCServer s =
     goTask GRPCServeTask
       (s\<lparr>app := (app s)\<lparr>grpcServer :=
                   map_option (\<lambda>g. g\<lparr>serviceRegistered := True\<rparr>) (grpcServer (app s))\<rparr>,
          trace := trace s @ [RegisterGRPC]\<rparr>)"

text \<open>
  The block \<^verbatim>\<open>if a.httpMux != nil && a.httpServer != nil { ... }\<close> of \<open>Run\<close>; the
  result is the panic of \<open>HandleFunc\<close>, if it panics.
\<close>

definition registerReadiness ::
  "('x, 'w) Service \<Rightarrow> ('h, 'x, 'w) RunState \<Rightarrow> PanicValue option \<times> ('h, 'x, 'w) RunState" where
  "registerReadiness service s =
     (case (httpMux (app s), httpServer (app s)) of
        (Some m, Some srv) \<Rightarrow>
          (case readinessProvider service of
             Some readinessChecks \<Rightarrow>
               (let s' = s\<lparr>trace := trace s @
                            [MuxHandleFunc ''/readyz'' (ReadinessHandlerFunc readinessChecks)]\<rparr> in
                case HandleFunc ''/readyz'' (ReadinessHandlerFunc readinessChecks) m of
                  Ok m' \<Rightarrow> (None, s'\<lparr>app := (app s')\<lparr>httpMux := Some m'\<rparr>\<rparr>)
                | Panic p \<Rightarrow> (Some p, s')
                | Err e \<Rightarrow> (None, s'))
           | None \<Rightarrow> (None, s))
      | _ \<Rightarrow> (None, s))"

definition startHTTPServer ::
  "Error option \<Rightarrow> ('h, 'x, 'w) RunState \<Rightarrow> Error option \<times> ('h, 'x, 'w) RunState" where
  "startHTTPServer registered s =
     (let s' = s\<lparr>trace := trace s @ [RegisterHTTP]\<rparr> in
      case registered of
        Some err \<Rightarrow> (Some (Wrapped ''failed to register HTTP handlers'' err), s')
      | None \<Rightarrow>
          (None,
           goTask HTTPServeTask
             (s'\<lparr>app := (app s')\<lparr>mux :=
                     map_option (\<lambda>g. g\<lparr>gatewayRegistered := True\<rparr>) (mux (app s'))\<rparr>\<rparr>)))"

text \<open>The block \<^verbatim>\<open>if a.httpServer != nil && a.mux != nil { ... }\<close> of \<open>Run\<close>.\<close>

definition startHTTP ::
  "('x, 'w) Service \<Rightarrow> ('h, 'x, 'w) RunState \<Rightarrow> Error option \<times> ('h, 'x, 'w) RunState" where
  "startHTTP service s =
     (case (httpServer (app s), mux (app s)) of
        (Some srv, Some gw) \<Rightarrow>
          (case httpProvider service of
             Some registered \<Rightarrow> startHTTPServer registered s
           | None \<Rightarrow> (None, goTask HTTPServeTask s))
      | _ \<Rightarrow> (None, s))"

definition handleGracefulShutdown :: "('h, 'x, 'w) RunState \<Rightarrow> ('h, 'x, 'w) RunState" where
  "handleGracefulShutdown s = goTask ShutdownWatcherTask s"

definition Run ::
  "('h, 'x, 'w) App \<Rightarrow> ('x, 'w) Service \<Rightarrow> Outcome \<times> ('h, 'x, 'w) RunState" where
  "Run a service =
     (let s1 = startGRPCServer
                 \<lparr> app = a\<lparr>healthCheck := SERVING\<rparr>,
                   launched = [],
                   trace = [SetServingStatus SERVING] \<rparr>
      in case registerReadiness service s1 of
           (Some p, s2) \<Rightarrow> (Panics p, s2)
         | (None, s2) \<Rightarrow>
             (case startHTTP service s2 of
                (Some err, s3) \<Rightarrow> (Returns err, s3)
              | (None, s3) \<Rightarrow> (WaitsOnGroup, handleGracefulShutdown s3)))"

subsection \<open>app.go: shutdown\<close>

text \<open>
  \<open>Shutdown\<close> blocks in two library calls, and how long depends on the traffic in flight.
  The environment of one invocation gives, on a clock of natural numbers in the unit of
  \<open>shutdownTimeout\<close>: how long after the call the HTTP server has no active connection
  left (\<open>httpDrain\<close>); how long after that instant the next poll of
  \<open>httpServer.Shutdown\<close> comes (\<open>httpPollLag\<close>); and how long after its call
  \<open>GracefulStop\<close> needs (\<open>grpcDrain\<close>). \<open>ctxDoneFirst\<close> is the choice a \<open>select\<close>
  makes when the deadline and its other case are ready at the same instant. Events carry
  the clock.
\<close>

record ShutdownEnv =
  httpDrain :: nat
  httpPollLag :: nat
  grpcDrain :: nat
  ctxDoneFirst :: bool

text \<open>
  \<open>httpServer.Shutdown(ctx)\<close> of \<open>net/http\<close>: it looks whether a connection is still
  active, and returns \<open>nil\<close> if none is; else it waits in a \<open>select\<close> for the context
  or for its poll timer (1 ms, doubling up to 500 ms), and looks again. So it returns
  \<open>nil\<close> at once when the server is idle at the call, and otherwise at the first poll at
  or after the instant the server is idle, when that poll comes before the deadline; it
  returns \<open>ctx.Err()\<close> at the deadline otherwise, and \<open>Shutdown\<close> logs that error. (The
  error of closing the listeners, which it would return in place of \<open>nil\<close>, is left
  out.)
\<close>

definition httpShutdown ::
  "ShutdownEnv \<Rightarrow> nat \<Rightarrow> nat \<Rightarrow> nat \<times> (nat \<times> ('x, 'w) Call) list" where
  "httpShutdown env t deadline =
     (let noticedAt = (if httpDrain env = 0 then t
                       else t + httpDrain env + httpPollLag env);
          expired = max t deadline in
      if httpDrain env = 0 \<or> noticedAt < deadline
         \<or> (noticedAt = deadline \<and> \<not> ctxDoneFirst env)
      then (noticedAt, [(t, HTTPShutdownCall), (noticedAt, HTTPShutdownReturn None)])
      else (expired,
            [(t, HTTPShutdownCall),
             (expired, HTTPShutdownReturn (Some (ErrorString ''context deadline exceeded''))),
             (expired, LogError ''error shutting down HTTP server'')]))"

text \<open>
  The goroutine calling \<open>GracefulStop\<close> and the \<open>select\<close> between \<open>ctx.Done()\<close> and
  \<open>stopped\<close>: when \<open>GracefulStop\<close> has returned before the deadline the stop is logged
  as graceful; at the deadline the server is stopped by force with \<open>Stop\<close>.
\<close>

definition grpcStop ::
  "ShutdownEnv \<Rightarrow> nat \<Rightarrow> nat \<Rightarrow> nat \<times> (nat \<times> ('x, 'w) Call) list" where
  "grpcStop env t deadline =
     (let stoppedAt = t + grpcDrain env; expired = max t deadline in
      if stoppedAt < deadline \<or> (stoppedAt = deadline \<and> \<not> ctxDoneFirst env)
      then (stoppedAt,
            [(t, GoGracefulStop), (stoppedAt, LogInfo ''gRPC server stopped gracefully'')])
      else (expired,
            [(t, GoGracefulStop), (expired, LogInfo ''force stopping gRPC server''),
             (expired, Stop)]))"

text \<open>
  \<open>Shutdown\<close>, invoked at time \<open>t\<close>: the application after it, the events in program
  order, and the time it returns. \<open>context.WithTimeout\<close> with a duration that is not
  positive gives a context that is done at once.
\<close>

definition Shutdown ::
  "ShutdownEnv \<Rightarrow> nat \<Rightarrow> ('h, 'x, 'w) App \<Rightarrow>
     ('h, 'x, 'w) App \<times> (nat \<times> ('x, 'w) Call) list \<times> nat" where
  "Shutdown env t a =
     (let a' = a\<lparr>healthCheck := NOT_SERVING\<rparr>;
          deadline = t + nat (shutdownTimeout (options a));
          (t1, e1) = (case httpServer a of
                        Some srv \<Rightarrow> httpShutdown env t deadline
                      | None \<Rightarrow> (t, []));
          (t2, e2) = (case grpcServer a of
                        Some g \<Rightarrow> grpcStop env t1 deadline
                      | None \<Rightarrow> (t1, []))
      in (a', (t, SetServingStatus NOT_SERVING) # e1 @ e2, t2))"



subsection \<open>Observing a run\<close>

text \<open>
  A middleware with logic before and after the call of the next handler, the shape of
  \<open>LoggingMiddleware\<close>. The handler is seen as what it adds to a log of events:
  \<open>observed before after next\<close> logs \<open>before\<close>, serves with \<open>next\<close>, logs \<open>after\<close>.
\<close>

definition observed :: "'e \<Rightarrow> 'e \<Rightarrow> ('e list \<Rightarrow> 'e list) \<Rightarrow> ('e list \<Rightarrow> 'e list)" where
  "observed before after next = (\<lambda>log. next (log @ [before]) @ [after])"

text \<open>
  Running checks in order from the world \<open>s\<close>: the world after the last one when every
  check returns \<open>nil\<close>, and \<open>None\<close> as soon as one returns an error.
\<close>

fun passAll :: "('x, 'w) ReadinessCheck list \<Rightarrow> 'x \<Rightarrow> 'w \<Rightarrow> 'w option" where
  "passAll [] ctx s = Some s"
| "passAll (check # checks) ctx s =
     (case check ctx s of (None, s') \<Rightarrow> passAll checks ctx s' | (Some err, s') \<Rightarrow> None)"

text \<open>The health registry's flag after a sequence of calls, starting from \<open>flag\<close>.\<close>

fun healthAfter :: "ServingStatus \<Rightarrow> ('x, 'w) Call list \<Rightarrow> ServingStatus" where
  "healthAfter flag [] = flag"
| "healthAfter flag (SetServingStatus st # cs) = healthAfter st cs"
| "healthAfter flag (c # cs) = healthAfter flag cs"

fun setsFlag :: "('x, 'w) Call \<Rightarrow> bool" where
  "setsFlag (SetServingStatus st) = True"
| "setsFlag c = False"

text \<open>The calls that begin a drain or a stop of one of the two servers.\<close>

fun drainOrStop :: "('x, 'w) Call \<Rightarrow> bool" where
  "drainOrStop HTTPShutdownCall = True"
| "drainOrStop GoGracefulStop = True"
| "drainOrStop Stop = True"
| "drainOrStop c = False"

section \<open>Properties\<close>

subsection \<open>Configuration\<close>

lemma applyOptions_snoc:
  "applyOptions (opts @ [opt]) o' = applyOption opt (applyOptions opts o')"
  by (induction opts arbitrary: o') auto

lemma buildOptions_snoc: "buildOptions (opts @ [opt]) = applyOption opt (buildOptions opts)"
  by (simp add: buildOptions_def applyOptions_snoc)

lemma buildOptions_Nil: "buildOptions [] = defaultOptions"
  by (simp add: buildOptions_def)

lemma grpcPort_built:
  "grpcPort (buildOptions opts) = last (9000 # [p. WithGRPCPort p \<leftarrow> opts])"
proof (induction opts rule: rev_induct)
  case Nil
  show ?case by (simp add: buildOptions_Nil defaultOptions_def)
next
  case (snoc opt opts)
  then show ?case by (cases opt) (simp_all add: buildOptions_snoc)
qed

lemma httpPort_built:
  "httpPort (buildOptions opts) = last (0 # [p. WithHTTPPort p \<leftarrow> opts])"
proof (induction opts rule: rev_induct)
  case Nil
  show ?case by (simp add: buildOptions_Nil defaultOptions_def)
next
  case (snoc opt opts)
  then show ?case by (cases opt) (simp_all add: buildOptions_snoc)
qed

lemma enableReflection_built:
  "enableReflection (buildOptions opts) = last (True # [e. WithReflection e \<leftarrow> opts])"
proof (induction opts rule: rev_induct)
  case Nil
  show ?case by (simp add: buildOptions_Nil defaultOptions_def)
next
  case (snoc opt opts)
  then show ?case by (cases opt) (simp_all add: buildOptions_snoc)
qed

lemma shutdownTimeout_built:
  "shutdownTimeout (buildOptions opts) = last (10000000000 # [d. WithShutdownTimeout d \<leftarrow> opts])"
proof (induction opts rule: rev_induct)
  case Nil
  show ?case by (simp add: buildOptions_Nil defaultOptions_def)
next
  case (snoc opt opts)
  then show ?case by (cases opt) (simp_all add: buildOptions_snoc)
qed

lemma logger_built:
  "logger (buildOptions opts) = last (DefaultJSONLogger # [l. WithLogger l \<leftarrow> opts])"
proof (induction opts rule: rev_induct)
  case Nil
  show ?case by (simp add: buildOptions_Nil defaultOptions_def)
next
  case (snoc opt opts)
  then show ?case by (cases opt) (simp_all add: buildOptions_snoc)
qed

lemma unaryInterceptors_built:
  "unaryInterceptors (buildOptions opts) = concat [xs. WithUnaryInterceptors xs \<leftarrow> opts]"
proof (induction opts rule: rev_induct)
  case Nil
  show ?case by (simp add: buildOptions_Nil defaultOptions_def)
next
  case (snoc opt opts)
  then show ?case by (cases opt) (simp_all add: buildOptions_snoc)
qed

lemma streamInterceptors_built:
  "streamInterceptors (buildOptions opts) = concat [xs. WithStreamInterceptors xs \<leftarrow> opts]"
proof (induction opts rule: rev_induct)
  case Nil
  show ?case by (simp add: buildOptions_Nil defaultOptions_def)
next
  case (snoc opt opts)
  then show ?case by (cases opt) (simp_all add: buildOptions_snoc)
qed

lemma muxOptions_built:
  "muxOptions (buildOptions opts) = concat [xs. WithMuxOptions xs \<leftarrow> opts]"
proof (induction opts rule: rev_induct)
  case Nil
  show ?case by (simp add: buildOptions_Nil defaultOptions_def)
next
  case (snoc opt opts)
  then show ?case by (cases opt) (simp_all add: buildOptions_snoc)
qed

lemma httpMiddleware_built:
  "httpMiddleware (buildOptions opts) = concat [ms. WithHTTPMiddleware ms \<leftarrow> opts]"
proof (induction opts rule: rev_induct)
  case Nil
  show ?case by (simp add: buildOptions_Nil defaultOptions_def)
next
  case (snoc opt opts)
  then show ?case by (cases opt) (simp_all add: buildOptions_snoc)
qed

text \<open>
  C9. Options are applied in call order to the defaults. For every list of options, a
  scalar field of the result (ports, reflection flag, shutdown timeout, logger) is the
  argument of the last option given for it, or the default when none was given; a
  list-valued field (unary interceptors, stream interceptors, mux options, HTTP
  middleware) is the concatenation, in call order, of the arguments of all the options
  given for it.
\<close>

theorem buildOptions_fields:
  "buildOptions (opts @ [opt]) = applyOption opt (buildOptions opts)
   \<and> grpcPort (buildOptions opts) = last (9000 # [p. WithGRPCPort p \<leftarrow> opts])
   \<and> httpPort (buildOptions opts) = last (0 # [p. WithHTTPPort p \<leftarrow> opts])
   \<and> enableReflection (buildOptions opts) = last (True # [e. WithReflection e \<leftarrow> opts])
   \<and> shutdownTimeout (buildOptions opts) =
       last (10000000000 # [d. WithShutdownTimeout d \<leftarrow> opts])
   \<and> logger (buildOptions opts) = last (DefaultJSONLogger # [l. WithLogger l \<leftarrow> opts])
   \<and> unaryInterceptors (buildOptions opts) = concat [xs. WithUnaryInterceptors xs \<leftarrow> opts]
   \<and> streamInterceptors (buildOptions opts) = concat [xs. WithStreamInterceptors xs \<leftarrow> opts]
   \<and> muxOptions (buildOptions opts) = concat [xs. WithMuxOptions xs \<leftarrow> opts]
   \<and> httpMiddleware (buildOptions opts) = concat [ms. WithHTTPMiddleware ms \<leftarrow> opts]"
  using buildOptions_snoc grpcPort_built httpPort_built enableReflection_built
    shutdownTimeout_built logger_built unaryInterceptors_built streamInterceptors_built
    muxOptions_built httpMiddleware_built
  by blast

theorem buildOptions_fields_witness:
  "grpcPort (buildOptions [WithGRPCPort 1, WithUnaryInterceptors [UnaryInterceptorHandle 1],
       WithGRPCPort 2, WithLogger (LoggerHandle 7),
       WithUnaryInterceptors [UnaryInterceptorHandle 2, UnaryInterceptorHandle 3]
       :: unit Option]) = 2
   \<and> unaryInterceptors (buildOptions [WithGRPCPort 1,
       WithUnaryInterceptors [UnaryInterceptorHandle 1], WithGRPCPort 2,
       WithLogger (LoggerHandle 7),
       WithUnaryInterceptors [UnaryInterceptorHandle 2, UnaryInterceptorHandle 3]
       :: unit Option]) =
     [UnaryInterceptorHandle 1, UnaryInterceptorHandle 2, UnaryInterceptorHandle 3]"
  using buildOptions_fields [of "[WithGRPCPort 1,
       WithUnaryInterceptors [UnaryInterceptorHandle 1], WithGRPCPort 2,
       WithLogger (LoggerHandle 7),
       WithUnaryInterceptors [UnaryInterceptorHandle 2, UnaryInterceptorHandle 3]
       :: unit Option]"]
  by simp

subsection \<open>Construction\<close>

lemma constructionRoutes:
  "WithHealthEndpoints [] [] =
     Ok [(''/healthz'', HealthHandlerFunc), (''/readyz'', ReadinessHandlerFunc [])]"
  by (simp add: WithHealthEndpoints_def HandleFunc_def)

lemma constructionRouter:
  "HandleFunc ''/'' GatewayMuxHandler
     [(''/healthz'', HealthHandlerFunc), (''/readyz'', ReadinessHandlerFunc [])] =
   Ok [(''/healthz'', HealthHandlerFunc), (''/readyz'', ReadinessHandlerFunc []),
       (''/'', GatewayMuxHandler)]"
  by (simp add: HandleFunc_def)

lemma NewApp_http_enabled:
  "0 < grpcPort (buildOptions opts) \<Longrightarrow> 0 < httpPort (buildOptions opts) \<Longrightarrow>
     \<exists>a. NewApp rh opts = Ok a \<and> options a = buildOptions opts \<and> healthCheck a = SERVING \<and>
       grpcServer a \<noteq> None \<and> httpServer a \<noteq> None \<and> mux a \<noteq> None \<and>
       httpMux a = Some [(''/healthz'', HealthHandlerFunc), (''/readyz'', ReadinessHandlerFunc []),
                         (''/'', GatewayMuxHandler)]"
  by (simp add: NewApp_def Let_def constructionRoutes constructionRouter)


text \<open>
  C6. A configuration whose gRPC port is at most 0 makes \<open>NewApp\<close> return the
  invalid-configuration error, and with it no application and no server; a
  configuration whose gRPC port is positive makes \<open>NewApp\<close> return an application.
\<close>

theorem NewApp_validates_grpcPort:
  "(grpcPort (buildOptions opts) \<le> 0 \<longrightarrow>
      NewApp rh opts = Err (ErrorString ''gRPC port must be specified and be greater than 0''))
   \<and> (grpcPort (buildOptions opts) > 0 \<longrightarrow> (\<exists>a. NewApp rh opts = Ok a))"
  by (simp add: NewApp_def Let_def constructionRoutes constructionRouter)

theorem NewApp_validates_grpcPort_witness:
  "NewApp () [WithGRPCPort 0, WithHTTPPort 8000] =
     (Err (ErrorString ''gRPC port must be specified and be greater than 0'')
        :: (unit, unit, unit) App Result)
   \<and> (\<exists>a :: (unit, unit, unit) App. NewApp () [WithGRPCPort 9000] = Ok a)"
  using NewApp_validates_grpcPort [of "[WithGRPCPort 0, WithHTTPPort 8000]" "()"]
        NewApp_validates_grpcPort [of "[WithGRPCPort 9000]" "()"]
  by (simp add: buildOptions_def defaultOptions_def)

text \<open>
  C10. A configuration whose HTTP port is at most 0, negative values included, is not
  rejected for it: when the gRPC port is positive \<open>NewApp\<close> returns an application, and
  every application it returns has no HTTP server, no HTTP mux and no gateway mux.
\<close>

theorem NewApp_nonpositive_httpPort:
  assumes "httpPort (buildOptions opts) \<le> 0"
  shows "(0 < grpcPort (buildOptions opts) \<longrightarrow> (\<exists>a. NewApp rh opts = Ok a))
    \<and> (\<forall>a. NewApp rh opts = Ok a \<longrightarrow> httpServer a = None \<and> httpMux a = None \<and> mux a = None)"
  using assms by (auto simp: NewApp_def Let_def split: if_splits)

theorem NewApp_nonpositive_httpPort_witness:
  "\<exists>a :: (unit, unit, unit) App. NewApp () [WithHTTPPort (- 5)] = Ok a
      \<and> httpServer a = None \<and> httpMux a = None \<and> mux a = None"
proof -
  have h: "httpPort (buildOptions [WithHTTPPort (- 5) :: unit Option]) \<le> 0"
    by (simp add: buildOptions_def defaultOptions_def)
  have g: "0 < grpcPort (buildOptions [WithHTTPPort (- 5) :: unit Option])"
    by (simp add: buildOptions_def defaultOptions_def)
  show ?thesis
    using NewApp_nonpositive_httpPort [OF h, of "()"] g by blast
qed

subsection \<open>Middleware\<close>

lemma wrapLoop_foldr:
  "n \<le> length mws \<Longrightarrow> wrapLoop mws (int n - 1) h = foldr (\<lambda>m k. m k) (take n mws) h"
proof (induction n arbitrary: h)
  case 0
  show ?case by (subst wrapLoop.simps) simp
next
  case (Suc n)
  have "wrapLoop mws (int (Suc n) - 1) h = wrapLoop mws (int n - 1) ((mws ! n) h)"
    by (subst wrapLoop.simps) simp
  also have "\<dots> = foldr (\<lambda>m k. m k) (take n mws) ((mws ! n) h)"
    using Suc by simp
  also have "\<dots> = foldr (\<lambda>m k. m k) (take (Suc n) mws) h"
    using Suc.prems by (simp add: take_Suc_conv_app_nth)
  finally show ?case .
qed

lemma wrapHTTPHandler_foldr:
  "wrapHTTPHandler o' h = foldr (\<lambda>m k. m k) (httpMiddleware o') h"
  unfolding wrapHTTPHandler_def
  using wrapLoop_foldr [of "length (httpMiddleware o')" "httpMiddleware o'" h]
  by simp

lemma foldr_observed:
  "foldr (\<lambda>m k. m k) (map (\<lambda>(b, a). observed b a) ps) h log =
     h (log @ map fst ps) @ rev (map snd ps)"
  by (induction ps arbitrary: log) (auto simp: observed_def)

lemma registered_middleware:
  "httpMiddleware (applyOptions (map (\<lambda>m. WithHTTPMiddleware [m]) ms) o') =
     httpMiddleware o' @ ms"
  by (induction ms arbitrary: o') auto

text \<open>
  C7. The wrapped handler is the first-registered middleware applied to the second
  applied to ... the last applied to the final handler, so the middleware registered
  last wraps closest to the final handler. For middleware registered in the order
  \<open>ps\<close>, each with logic before and after its call of the next handler, a request runs
  the before-logic in registration order, then the final handler, then the after-logic
  in reverse registration order.
\<close>

theorem wrapHTTPHandler_order:
  "wrapHTTPHandler o' h = foldr (\<lambda>m k. m k) (httpMiddleware o') h
   \<and> wrapHTTPHandler (o'\<lparr>httpMiddleware := ms @ [m]\<rparr>) h =
       wrapHTTPHandler (o'\<lparr>httpMiddleware := ms\<rparr>) (m h)
   \<and> wrapHTTPHandler (buildOptions (map (\<lambda>(b, a). WithHTTPMiddleware [observed b a]) ps)) h log =
       h (log @ map fst ps) @ rev (map snd ps)"
proof -
  have reg: "httpMiddleware (buildOptions (map (\<lambda>(b, a). WithHTTPMiddleware [observed b a]) ps)) =
      map (\<lambda>(b, a). observed b a) ps"
    using registered_middleware [of "map (\<lambda>(b, a). observed b a) ps" defaultOptions]
    by (simp add: buildOptions_def defaultOptions_def comp_def case_prod_unfold)
  show ?thesis
    by (simp add: wrapHTTPHandler_foldr reg foldr_observed)
qed

theorem wrapHTTPHandler_order_witness:
  "wrapHTTPHandler
     (buildOptions [WithHTTPMiddleware [observed ''A-before'' ''A-after''],
                    WithHTTPMiddleware [observed ''B-before'' ''B-after'']])
     (\<lambda>log. log @ [''handler'']) [] =
   [''A-before'', ''B-before'', ''handler'', ''B-after'', ''A-after'']"
  using wrapHTTPHandler_order [of defaultOptions "\<lambda>log. log @ [''handler'']" "[]" id
      "[(''A-before'', ''A-after''), (''B-before'', ''B-after'')]" "[]"]
  by simp

subsection \<open>Readiness\<close>

lemma ReadinessHandler_after_passing:
  "passAll pre (Context r) s = Some s1 \<Longrightarrow>
     ReadinessHandler (pre @ rest) w r s = ReadinessHandler rest w r s1"
  by (induction pre arbitrary: s) (auto split: prod.splits option.splits)

text \<open>
  C8. The readiness handler calls the checks in order with the request's context. When
  the checks before check \<open>k\<close> all pass and check \<open>k\<close> fails, the response is 503 with
  that error's message as body, and the world is the one check \<open>k\<close> left: whatever the
  later checks are, they are not called. When all checks pass, the response is 200 with
  body \<open>Ready\<close>.
\<close>

theorem ReadinessHandler_first_failure:
  "(passAll pre (Context r) s = Some s1 \<and> check (Context r) s1 = (Some err, s2) \<longrightarrow>
      ReadinessHandler (pre @ check # post) newResponseWriter r s =
        (\<lparr> wroteHeader = Some 503, written = errorString err \<rparr>, s2))
   \<and> (passAll checks (Context r) s = Some s' \<longrightarrow>
      ReadinessHandler checks newResponseWriter r s =
        (\<lparr> wroteHeader = Some 200, written = ''Ready'' \<rparr>, s'))"
proof (intro conjI impI)
  assume "passAll pre (Context r) s = Some s1 \<and> check (Context r) s1 = (Some err, s2)"
  then show "ReadinessHandler (pre @ check # post) newResponseWriter r s =
        (\<lparr> wroteHeader = Some 503, written = errorString err \<rparr>, s2)"
    by (simp add: ReadinessHandler_after_passing Write_def WriteHeader_def newResponseWriter_def
        StatusServiceUnavailable_def Let_def)
next
  assume "passAll checks (Context r) s = Some s'"
  then have "ReadinessHandler (checks @ []) newResponseWriter r s =
      ReadinessHandler [] newResponseWriter r s'"
    by (rule ReadinessHandler_after_passing)
  then show "ReadinessHandler checks newResponseWriter r s =
        (\<lparr> wroteHeader = Some 200, written = ''Ready'' \<rparr>, s')"
    by (simp add: Write_def WriteHeader_def newResponseWriter_def StatusOK_def Let_def)
qed

text \<open>
  The world of the witness is the list of the checks called so far: the third check is
  never called after the second has failed.
\<close>

theorem ReadinessHandler_first_failure_witness:
  "ReadinessHandler
     [\<lambda>ctx s. (None, s @ [''db'']),
      \<lambda>ctx s. (Some (ErrorString ''cache down''), s @ [''cache'']),
      \<lambda>ctx s. (Some (ErrorString ''queue down''), s @ [''queue''])]
     newResponseWriter \<lparr> Context = () \<rparr> [] =
     (\<lparr> wroteHeader = Some 503, written = ''cache down'' \<rparr>, [''db'', ''cache''])
   \<and> ReadinessHandler
     [\<lambda>ctx s. (None, s @ [''db'']), \<lambda>ctx s. (None, s @ [''cache''])]
     newResponseWriter \<lparr> Context = () \<rparr> [] =
     (\<lparr> wroteHeader = Some 200, written = ''Ready'' \<rparr>, [''db'', ''cache''])"
  using ReadinessHandler_first_failure
    [of "[\<lambda>ctx s. (None, s @ [''db''])]" "\<lparr> Context = () \<rparr>" "[]" "[''db'']"
        "\<lambda>ctx s. (Some (ErrorString ''cache down''), s @ [''cache''])"
        "ErrorString ''cache down''" "[''db'', ''cache'']"
        "[\<lambda>ctx s. (Some (ErrorString ''queue down''), s @ [''queue''])]"
        "[\<lambda>ctx s. (None, s @ [''db'']), \<lambda>ctx s. (None, s @ [''cache''])]"
        "[''db'', ''cache'']"]
  by simp

subsection \<open>Run\<close>

lemmas Run_defs =
  Run_def startGRPCServer_def goTask_def registerReadiness_def startHTTP_def
  startHTTPServer_def handleGracefulShutdown_def



lemma Run_registration_error:
  assumes "httpServer a = Some srv" and "mux a = Some gw"
    and "readinessProvider service = None" and "httpProvider service = Some (Some err)"
  shows "Run a service =
     (Returns (Wrapped ''failed to register HTTP handlers'' err),
      \<lparr> app = a\<lparr>healthCheck := SERVING,
                 grpcServer := map_option (\<lambda>g. g\<lparr>serviceRegistered := True\<rparr>) (grpcServer a)\<rparr>,
        launched = [GRPCServeTask],
        trace = [SetServingStatus SERVING, RegisterGRPC, Go GRPCServeTask, RegisterHTTP] \<rparr>)"
  using assms
  by (auto simp: Run_defs Let_def split: Result.splits option.splits prod.splits)




text \<open>
  C2. What \<open>Run\<close> does when the HTTP registration of the service returns an error (HTTP
  port positive, no readiness capability): it returns that error, wrapped, right after
  the call of \<open>RegisterHTTP\<close>. The HTTP serve task is not launched. The gRPC serve task
  is the only task launched; the shutdown watcher is not launched, \<open>g.Wait()\<close> is not
  reached, and neither \<open>Stop\<close> nor \<open>GracefulStop\<close> is called: the gRPC task is left
  running.
\<close>

theorem Run_registration_error_leaves_grpc_task:
  fixes service :: "('x, 'w) Service" and rh :: 'h
  assumes "0 < grpcPort (buildOptions opts)" and "0 < httpPort (buildOptions opts)"
    and "readinessProvider service = None" and "httpProvider service = Some (Some err)"
  shows "\<exists>a. NewApp rh opts = Ok a \<and>
     (case Run a service of
        (out, s) \<Rightarrow>
          out = Returns (Wrapped ''failed to register HTTP handlers'' err) \<and>
          launched s = [GRPCServeTask] \<and>
          trace s = [SetServingStatus SERVING, RegisterGRPC, Go GRPCServeTask, RegisterHTTP])"
proof -
  obtain a :: "('h, 'x, 'w) App"
    where a: "NewApp rh opts = Ok a" "httpServer a \<noteq> None" "mux a \<noteq> None"
    using NewApp_http_enabled [OF assms(1,2), of rh] by blast
  then obtain srv gw where "httpServer a = Some srv" "mux a = Some gw" by blast
  then show ?thesis
    using a(1) Run_registration_error [of a srv gw service err] assms(3,4) by simp
qed

theorem Run_registration_error_leaves_grpc_task_witness:
  "\<exists>a :: (unit, unit, unit) App. NewApp () [WithGRPCPort 9000, WithHTTPPort 8000] = Ok a \<and>
     (case Run a \<lparr> readinessProvider = None,
                   httpProvider = Some (Some (ErrorString ''boom'')) \<rparr> of
        (out, s) \<Rightarrow>
          out = Returns (Wrapped ''failed to register HTTP handlers'' (ErrorString ''boom'')) \<and>
          launched s = [GRPCServeTask] \<and>
          trace s = [SetServingStatus SERVING, RegisterGRPC, Go GRPCServeTask, RegisterHTTP])"
proof -
  have g: "0 < grpcPort (buildOptions [WithGRPCPort 9000, WithHTTPPort 8000 :: unit Option])"
    and h: "0 < httpPort (buildOptions [WithGRPCPort 9000, WithHTTPPort 8000 :: unit Option])"
    by (simp_all add: buildOptions_def defaultOptions_def)
  show ?thesis
    using Run_registration_error_leaves_grpc_task [OF g h, of
        "\<lparr> readinessProvider = None, httpProvider = Some (Some (ErrorString ''boom'')) \<rparr>"
        "ErrorString ''boom''" "()"]
    by simp
qed

subsection \<open>Shutdown\<close>

lemma httpShutdown_cases:
  "httpShutdown env t D = (t1, e1) \<Longrightarrow> t \<le> D \<Longrightarrow>
     (e1 = [(t, HTTPShutdownCall), (t1, HTTPShutdownReturn None)]
        \<and> t1 = t + httpDrain env + (if httpDrain env = 0 then 0 else httpPollLag env)
        \<and> t1 \<le> D)
     \<or> (e1 = [(t, HTTPShutdownCall),
               (t1, HTTPShutdownReturn (Some (ErrorString ''context deadline exceeded''))),
               (t1, LogError ''error shutting down HTTP server'')]
        \<and> t1 = D \<and> 0 < httpDrain env \<and> D \<le> t + httpDrain env + httpPollLag env)"
  by (auto simp: httpShutdown_def Let_def split: if_splits)

lemma grpcStop_cases:
  "grpcStop env t D = (t2, e2) \<Longrightarrow> t \<le> D \<Longrightarrow>
     (e2 = [(t, GoGracefulStop), (t2, LogInfo ''gRPC server stopped gracefully'')]
        \<and> t2 = t + grpcDrain env \<and> t2 \<le> D)
     \<or> (e2 = [(t, GoGracefulStop), (t2, LogInfo ''force stopping gRPC server''), (t2, Stop)]
        \<and> t2 = D \<and> D \<le> t + grpcDrain env)"
  by (auto simp: grpcStop_def Let_def split: if_splits)

lemma Shutdown_both_servers:
  fixes a :: "('h, 'x, 'w) App"
  assumes "httpServer a = Some srv" and "grpcServer a = Some g"
  shows "\<exists>t1 e1 t2 e2.
     Shutdown env t a =
       (a\<lparr>healthCheck := NOT_SERVING\<rparr>, (t, SetServingStatus NOT_SERVING) # e1 @ e2, t2)
     \<and> httpShutdown env t (t + nat (shutdownTimeout (options a))) = (t1, e1)
     \<and> grpcStop env t1 (t + nat (shutdownTimeout (options a))) = (t2, e2)"
proof -
  let ?D = "t + nat (shutdownTimeout (options a))"
  obtain t1 e1 where h: "httpShutdown env t ?D = (t1, e1 :: (nat \<times> ('x, 'w) Call) list)"
    by fastforce
  obtain t2 e2 where g: "grpcStop env t1 ?D = (t2, e2 :: (nat \<times> ('x, 'w) Call) list)"
    by fastforce
  have "Shutdown env t a =
      (a\<lparr>healthCheck := NOT_SERVING\<rparr>, (t, SetServingStatus NOT_SERVING) # e1 @ e2, t2)"
    using assms h g by (simp add: Shutdown_def Let_def)
  then show ?thesis using h g by blast
qed

text \<open>
  C3, as amended. With both servers present, \<open>Shutdown\<close> runs the two operations one
  after the other against one deadline. It sets the flag, calls the HTTP server's drain
  and waits for its return: \<open>nil\<close> at the instant the drain has seen the server idle,
  or the context's error, which is logged, at the deadline when the server was not seen
  idle before. Only at that return does it start the gRPC server's graceful stop. That
  stop either ends by itself, its drain time after its start and within the deadline,
  or the server is stopped by force, with \<open>Stop\<close>, at the deadline. \<open>Shutdown\<close> returns
  then: never after the single configured deadline, and never before the sum of the two
  drain times has passed or the deadline is reached.
\<close>

theorem Shutdown_sequential_within_deadline:
  fixes a :: "('h, 'x, 'w) App"
  assumes "httpServer a = Some srv" and "grpcServer a = Some g"
  shows "case Shutdown env t a of
     (a', evs, t') \<Rightarrow>
       (let D = t + nat (shutdownTimeout (options a));
            noticed = t + httpDrain env + (if httpDrain env = 0 then 0 else httpPollLag env)
        in \<exists>t1 httpEnd grpcEnd.
            evs = (t, SetServingStatus NOT_SERVING) # (t, HTTPShutdownCall) #
                  httpEnd @ (t1, GoGracefulStop) # grpcEnd
            \<and> (httpEnd = [(t1, HTTPShutdownReturn None)] \<and> t1 = noticed
               \<or> httpEnd =
                   [(t1, HTTPShutdownReturn (Some (ErrorString ''context deadline exceeded''))),
                    (t1, LogError ''error shutting down HTTP server'')]
                 \<and> t1 = D \<and> 0 < httpDrain env \<and> D \<le> noticed)
            \<and> (grpcEnd = [(t', LogInfo ''gRPC server stopped gracefully'')]
                 \<and> t' = t1 + grpcDrain env
               \<or> grpcEnd = [(t', LogInfo ''force stopping gRPC server''), (t', Stop)]
                 \<and> t' = D \<and> D \<le> t1 + grpcDrain env)
            \<and> t \<le> t1 \<and> t1 \<le> t' \<and> t' \<le> D
            \<and> min (t + httpDrain env + grpcDrain env) D \<le> t')"
proof -
  let ?D = "t + nat (shutdownTimeout (options a))"
  let ?noticed = "t + httpDrain env + (if httpDrain env = 0 then 0 else httpPollLag env)"
  obtain t1 e1 t2 e2 where S: "Shutdown env t a =
      (a\<lparr>healthCheck := NOT_SERVING\<rparr>, (t, SetServingStatus NOT_SERVING) # e1 @ e2, t2)"
    and h: "httpShutdown env t ?D = (t1, e1)" and g: "grpcStop env t1 ?D = (t2, e2)"
    using Shutdown_both_servers [OF assms] by blast
  have tD: "t \<le> ?D" by simp
  note hc = httpShutdown_cases [OF h tD]
  then have t1D: "t1 \<le> ?D" by auto
  note gc = grpcStop_cases [OF g t1D]
  obtain httpEnd where e1: "e1 = (t, HTTPShutdownCall) # httpEnd"
    and httpEnd: "httpEnd = [(t1, HTTPShutdownReturn None)] \<and> t1 = ?noticed
       \<or> httpEnd =
           [(t1, HTTPShutdownReturn (Some (ErrorString ''context deadline exceeded''))),
            (t1, LogError ''error shutting down HTTP server'')]
         \<and> t1 = ?D \<and> 0 < httpDrain env \<and> ?D \<le> ?noticed"
    using hc by auto
  obtain grpcEnd where e2: "e2 = (t1, GoGracefulStop) # grpcEnd"
    and grpcEnd: "grpcEnd = [(t2, LogInfo ''gRPC server stopped gracefully'')]
         \<and> t2 = t1 + grpcDrain env
       \<or> grpcEnd = [(t2, LogInfo ''force stopping gRPC server''), (t2, Stop)]
         \<and> t2 = ?D \<and> ?D \<le> t1 + grpcDrain env"
    using gc by auto
  have tt1: "t \<le> t1" using hc by auto
  have t12: "t1 \<le> t2" using gc t1D by auto
  have t2D: "t2 \<le> ?D" using gc by auto
  have drained: "min (t + httpDrain env) ?D \<le> t1" using hc by auto
  have low: "min (t + httpDrain env + grpcDrain env) ?D \<le> t2"
    using gc drained by auto
  have evs: "(t, SetServingStatus NOT_SERVING) # e1 @ e2 =
      (t, SetServingStatus NOT_SERVING) # (t, HTTPShutdownCall) #
      httpEnd @ (t1, GoGracefulStop) # grpcEnd"
    using e1 e2 by simp
  have "\<exists>t1 httpEnd grpcEnd.
      (t, SetServingStatus NOT_SERVING) # e1 @ e2 =
        (t, SetServingStatus NOT_SERVING) # (t, HTTPShutdownCall) #
        httpEnd @ (t1, GoGracefulStop) # grpcEnd
      \<and> (httpEnd = [(t1, HTTPShutdownReturn None)] \<and> t1 = ?noticed
         \<or> httpEnd =
             [(t1, HTTPShutdownReturn (Some (ErrorString ''context deadline exceeded''))),
              (t1, LogError ''error shutting down HTTP server'')]
           \<and> t1 = ?D \<and> 0 < httpDrain env \<and> ?D \<le> ?noticed)
      \<and> (grpcEnd = [(t2, LogInfo ''gRPC server stopped gracefully'')]
           \<and> t2 = t1 + grpcDrain env
         \<or> grpcEnd = [(t2, LogInfo ''force stopping gRPC server''), (t2, Stop)]
           \<and> t2 = ?D \<and> ?D \<le> t1 + grpcDrain env)
      \<and> t \<le> t1 \<and> t1 \<le> t2 \<and> t2 \<le> ?D
      \<and> min (t + httpDrain env + grpcDrain env) ?D \<le> t2"
    using evs httpEnd grpcEnd tt1 t12 t2D low by blast
  then show ?thesis
    unfolding S prod.case Let_def .
qed

text \<open>
  The witness: a deadline of 10, the HTTP server idle after 7 and seen idle at 8; the
  graceful stop, started at 8, would need until 16 and is cut by \<open>Stop\<close> at 10.
\<close>

theorem Shutdown_sequential_within_deadline_witness:
  "\<exists>a :: (unit, unit, unit) App.
     NewApp () [WithHTTPPort 8000, WithShutdownTimeout 10] = Ok a \<and>
     (case Shutdown \<lparr> httpDrain = 7, httpPollLag = 1, grpcDrain = 8, ctxDoneFirst = False \<rparr>
             0 a of
        (a', evs, t') \<Rightarrow>
          t' = 10 \<and>
          evs = [(0, SetServingStatus NOT_SERVING), (0, HTTPShutdownCall),
                 (8, HTTPShutdownReturn None), (8, GoGracefulStop),
                 (10, LogInfo ''force stopping gRPC server''), (10, Stop)])"
proof -
  let ?opts = "[WithHTTPPort 8000, WithShutdownTimeout 10 :: unit Option]"
  have g: "0 < grpcPort (buildOptions ?opts)" and h: "0 < httpPort (buildOptions ?opts)"
    and d: "shutdownTimeout (buildOptions ?opts) = 10"
    by (simp_all add: buildOptions_def defaultOptions_def)
  obtain a :: "(unit, unit, unit) App" where a: "NewApp () ?opts = Ok a"
    "options a = buildOptions ?opts" "grpcServer a \<noteq> None" "httpServer a \<noteq> None"
    using NewApp_http_enabled [OF g h, of "()"] by blast
  then obtain srv gs where s: "httpServer a = Some srv" "grpcServer a = Some gs" by blast
  let ?env = "\<lparr> httpDrain = 7, httpPollLag = 1, grpcDrain = 8, ctxDoneFirst = False \<rparr>"
  let ?evs = "[(0, SetServingStatus NOT_SERVING), (0, HTTPShutdownCall),
               (8, HTTPShutdownReturn None), (8, GoGracefulStop),
               (10, LogInfo ''force stopping gRPC server''), (10, Stop)]"
  obtain a' evs t' where S: "Shutdown ?env 0 a = (a', evs, t')"
    by (cases "Shutdown ?env 0 a") auto
  have evs: "evs = ?evs"
    using S s a(2) d by (auto simp: Shutdown_def httpShutdown_def grpcStop_def Let_def)
  have "min (0 + httpDrain ?env + grpcDrain ?env) (0 + nat (shutdownTimeout (options a))) \<le> t'
      \<and> t' \<le> 0 + nat (shutdownTimeout (options a))"
    using Shutdown_sequential_within_deadline [OF s, where env = ?env and t = 0]
    unfolding S prod.case Let_def by blast
  then have "t' = 10" using a(2) d by simp
  then show ?thesis using a(1) S evs by simp
qed

text \<open>
  C3 as it is stated fails: with a deadline of 10, an HTTP drain of 2, seen at once, and
  a gRPC drain of 3, the graceful stop starts at time 2, when the HTTP drain has
  returned, and \<open>Shutdown\<close> returns at time 5, the sum of the two drain times; run
  together, the two would be over at time 3.
\<close>

theorem Shutdown_concurrent_counterexample:
  "case NewApp () [WithHTTPPort 8000, WithShutdownTimeout 10] of
     Ok a \<Rightarrow>
       (case Shutdown \<lparr> httpDrain = 2, httpPollLag = 0, grpcDrain = 3, ctxDoneFirst = False \<rparr> 0
               (a :: (unit, unit, unit) App) of
          (a', evs, t') \<Rightarrow>
            evs = [(0, SetServingStatus NOT_SERVING), (0, HTTPShutdownCall),
                   (2, HTTPShutdownReturn None), (2, GoGracefulStop),
                   (5, LogInfo ''gRPC server stopped gracefully'')]
            \<and> t' = 5)
   | Err e \<Rightarrow> False
   | Panic p \<Rightarrow> False"
  by (simp add: NewApp_def buildOptions_def defaultOptions_def Let_def constructionRoutes
      constructionRouter Shutdown_def httpShutdown_def grpcStop_def)

lemma healthAfter_unset:
  "\<forall>c \<in> set cs. \<not> setsFlag c \<Longrightarrow> healthAfter flag cs = flag"
proof (induction cs)
  case Nil
  show ?case by simp
next
  case (Cons c cs)
  then show ?case by (cases c) simp_all
qed

lemma httpShutdown_events:
  "httpShutdown env t D = (t1, e1) \<Longrightarrow> \<forall>e \<in> set e1. \<not> setsFlag (snd e)"
  by (auto simp: httpShutdown_def Let_def split: if_splits)

lemma grpcStop_events:
  "grpcStop env t D = (t2, e2) \<Longrightarrow> \<forall>e \<in> set e2. \<not> setsFlag (snd e)"
  by (auto simp: grpcStop_def Let_def split: if_splits)

lemma Shutdown_parts:
  fixes a :: "('h, 'x, 'w) App"
  shows "\<exists>t1 e1 t2 e2.
     Shutdown env t a =
       (a\<lparr>healthCheck := NOT_SERVING\<rparr>, (t, SetServingStatus NOT_SERVING) # e1 @ e2, t2)
     \<and> (case httpServer a of
          Some srv \<Rightarrow> httpShutdown env t (t + nat (shutdownTimeout (options a)))
        | None \<Rightarrow> (t, [])) = (t1, e1)
     \<and> (case grpcServer a of
          Some g \<Rightarrow> grpcStop env t1 (t + nat (shutdownTimeout (options a)))
        | None \<Rightarrow> (t1, [])) = (t2, e2)"
proof -
  let ?D = "t + nat (shutdownTimeout (options a))"
  obtain t1 e1 where h: "(case httpServer a of Some srv \<Rightarrow> httpShutdown env t ?D
      | None \<Rightarrow> (t, [])) = (t1, e1 :: (nat \<times> ('x, 'w) Call) list)"
    by fastforce
  obtain t2 e2 where g: "(case grpcServer a of Some g \<Rightarrow> grpcStop env t1 ?D
      | None \<Rightarrow> (t1, [])) = (t2, e2 :: (nat \<times> ('x, 'w) Call) list)"
    by fastforce
  have "Shutdown env t a =
      (a\<lparr>healthCheck := NOT_SERVING\<rparr>, (t, SetServingStatus NOT_SERVING) # e1 @ e2, t2)"
    using h g by (simp add: Shutdown_def Let_def)
  then show ?thesis using h g by blast
qed

lemma Shutdown_shape:
  fixes a :: "('h, 'x, 'w) App"
  shows "\<exists>rest t'. Shutdown env t a =
      (a\<lparr>healthCheck := NOT_SERVING\<rparr>, (t, SetServingStatus NOT_SERVING) # rest, t')
    \<and> (\<forall>e \<in> set rest. \<not> setsFlag (snd e))"
proof -
  let ?D = "t + nat (shutdownTimeout (options a))"
  obtain t1 t2 and e1 e2 :: "(nat \<times> ('x, 'w) Call) list" where S: "Shutdown env t a =
      (a\<lparr>healthCheck := NOT_SERVING\<rparr>, (t, SetServingStatus NOT_SERVING) # e1 @ e2, t2)"
    and h: "(case httpServer a of Some srv \<Rightarrow> httpShutdown env t ?D | None \<Rightarrow> (t, [])) = (t1, e1)"
    and g: "(case grpcServer a of Some g \<Rightarrow> grpcStop env t1 ?D | None \<Rightarrow> (t1, [])) = (t2, e2)"
    using Shutdown_parts [where env = env and t = t and a = a] by blast
  have 1: "\<forall>e \<in> set e1. \<not> setsFlag (snd e)"
    using h httpShutdown_events by (cases "httpServer a") fastforce+
  have 2: "\<forall>e \<in> set e2. \<not> setsFlag (snd e)"
    using g grpcStop_events by (cases "grpcServer a") fastforce+
  show ?thesis using S 1 2 by auto
qed

text \<open>
  C4. In every execution of \<open>Shutdown\<close> the first call sets the health flag to not
  serving; every call that begins a drain or a stop of a server comes later in program
  order; and at every point after that first call, to the end of \<open>Shutdown\<close>, the flag
  is not serving and the liveness probe answers 503.
\<close>

theorem Shutdown_not_serving_first:
  fixes a :: "('h, 'x, 'w) App"
  shows "case Shutdown env t a of
     (a', evs, t') \<Rightarrow>
       (\<exists>rest. evs = (t, SetServingStatus NOT_SERVING) # rest)
       \<and> (\<forall>i < length evs. drainOrStop (snd (evs ! i)) \<longrightarrow> 0 < i)
       \<and> (\<forall>n. 0 < n \<and> n \<le> length evs \<longrightarrow>
             healthAfter (healthCheck a) (map snd (take n evs)) = NOT_SERVING
             \<and> HealthHandler (healthAfter (healthCheck a) (map snd (take n evs)))
                 newResponseWriter =
                 \<lparr> wroteHeader = Some 503, written = ''Service Unavailable'' \<rparr>)
       \<and> healthCheck a' = NOT_SERVING"
proof -
  obtain rest t' where S: "Shutdown env t a =
      (a\<lparr>healthCheck := NOT_SERVING\<rparr>, (t, SetServingStatus NOT_SERVING) # rest, t')"
    and rest: "\<forall>e \<in> set rest. \<not> setsFlag (snd e)"
    using Shutdown_shape [where env = env and t = t and a = a] by blast
  let ?evs = "(t, SetServingStatus NOT_SERVING) # rest"
  have order: "\<forall>i < length ?evs. drainOrStop (snd (?evs ! i)) \<longrightarrow> 0 < i"
  proof (intro allI impI)
    fix i assume "i < length ?evs" "drainOrStop (snd (?evs ! i))"
    then show "0 < i" by (cases i) simp_all
  qed
  have flag: "healthAfter (healthCheck a) (map snd (take n ?evs)) = NOT_SERVING"
    if pos: "0 < n" for n
  proof -
    obtain m where n: "n = Suc m" using pos by (cases n) auto
    have "\<forall>c \<in> set (map snd (take m rest)). \<not> setsFlag c"
      using rest by (auto dest: in_set_takeD)
    then show ?thesis
      using n by (simp add: healthAfter_unset)
  qed
  have probe: "HealthHandler NOT_SERVING newResponseWriter =
      \<lparr> wroteHeader = Some 503, written = ''Service Unavailable'' \<rparr>"
    by (simp add: HealthHandler_def Write_def WriteHeader_def newResponseWriter_def
        StatusServiceUnavailable_def Let_def)
  show ?thesis
    unfolding S using order flag probe by simp
qed

theorem Shutdown_not_serving_first_witness:
  "\<exists>a :: (unit, unit, unit) App.
     NewApp () [WithHTTPPort 8000, WithShutdownTimeout 10] = Ok a \<and>
     HealthHandler (healthCheck a) newResponseWriter =
       \<lparr> wroteHeader = Some 200, written = ''OK'' \<rparr> \<and>
     (case Shutdown \<lparr> httpDrain = 2, httpPollLag = 0, grpcDrain = 3, ctxDoneFirst = False \<rparr> 0 a of
        (a', evs, t') \<Rightarrow>
          map snd evs = [SetServingStatus NOT_SERVING, HTTPShutdownCall,
                         HTTPShutdownReturn None, GoGracefulStop,
                         LogInfo ''gRPC server stopped gracefully''] \<and>
          HealthHandler (healthAfter (healthCheck a) (map snd (take 1 evs)))
              newResponseWriter =
            \<lparr> wroteHeader = Some 503, written = ''Service Unavailable'' \<rparr> \<and>
          HealthHandler (healthCheck a') newResponseWriter =
            \<lparr> wroteHeader = Some 503, written = ''Service Unavailable'' \<rparr>)"
proof -
  let ?opts = "[WithHTTPPort 8000, WithShutdownTimeout 10 :: unit Option]"
  let ?env = "\<lparr> httpDrain = 2, httpPollLag = 0, grpcDrain = 3, ctxDoneFirst = False \<rparr>"
  have g: "0 < grpcPort (buildOptions ?opts)" and h: "0 < httpPort (buildOptions ?opts)"
    and d: "shutdownTimeout (buildOptions ?opts) = 10"
    by (simp_all add: buildOptions_def defaultOptions_def)
  obtain a :: "(unit, unit, unit) App" where a: "NewApp () ?opts = Ok a"
    "options a = buildOptions ?opts" "healthCheck a = SERVING"
    "grpcServer a \<noteq> None" "httpServer a \<noteq> None"
    using NewApp_http_enabled [OF g h, of "()"] by blast
  then obtain srv gs where s: "httpServer a = Some srv" "grpcServer a = Some gs" by blast
  obtain a' evs t' where S: "Shutdown ?env 0 a = (a', evs, t')"
    by (cases "Shutdown ?env 0 a") auto
  have evs: "map snd evs = [SetServingStatus NOT_SERVING, HTTPShutdownCall,
      HTTPShutdownReturn None, GoGracefulStop, LogInfo ''gRPC server stopped gracefully'']"
    and a': "a' = a\<lparr>healthCheck := NOT_SERVING\<rparr>"
    using S s a(2) d by (auto simp: Shutdown_def httpShutdown_def grpcStop_def Let_def)
  have len: "0 < (1 :: nat) \<and> 1 \<le> length evs"
    using arg_cong [OF evs, of length] by simp
  have T: "(\<forall>n. 0 < n \<and> n \<le> length evs \<longrightarrow>
             healthAfter (healthCheck a) (map snd (take n evs)) = NOT_SERVING
             \<and> HealthHandler (healthAfter (healthCheck a) (map snd (take n evs)))
                 newResponseWriter =
                 \<lparr> wroteHeader = Some 503, written = ''Service Unavailable'' \<rparr>)
       \<and> healthCheck a' = NOT_SERVING"
    using Shutdown_not_serving_first [where env = ?env and t = 0 and a = a]
    unfolding S prod.case by blast
  then have probe: "HealthHandler (healthAfter (healthCheck a) (map snd (take 1 evs)))
      newResponseWriter = \<lparr> wroteHeader = Some 503, written = ''Service Unavailable'' \<rparr>"
    using len by blast
  have after: "HealthHandler (healthCheck a') newResponseWriter =
      \<lparr> wroteHeader = Some 503, written = ''Service Unavailable'' \<rparr>"
    using T by (simp add: HealthHandler_def Write_def WriteHeader_def newResponseWriter_def
        StatusServiceUnavailable_def Let_def)
  have before: "HealthHandler (healthCheck a) newResponseWriter =
      \<lparr> wroteHeader = Some 200, written = ''OK'' \<rparr>"
    using a(3) by (simp add: HealthHandler_def Write_def WriteHeader_def newResponseWriter_def
        StatusOK_def Let_def)
  show ?thesis using a(1) S evs probe after before by simp
qed








end
